theory Spec2Isabelle
  imports Main
begin

section \<open>RadioButton.Item: a pressable row with a label and a radio indicator\<close>

text \<open>
  The development follows \<^verbatim>\<open>src/components/RadioButton/RadioButtonItem.tsx\<close>.
  The component's \<^verbatim>\<open>render\<close> method is translated as a function from the props and
  the ambient context value to the element tree it returns. Callbacks are functions on an
  arbitrary type \<open>'w\<close> of everything a callback can observe or change outside the
  component; a callback that is not supplied is \<open>None\<close>.
\<close>

subsection \<open>Styles\<close>

datatype styleValue = StrV string | NumV int

text \<open>
  A \<^verbatim>\<open>StyleProp\<close> is absent, a style object (a finite map from style keys to
  values) or an array of style props.
\<close>

datatype styleProp =
    StyleUndefined
  | StyleObject "string \<rightharpoonup> styleValue"
  | StyleArray "styleProp list"

text \<open>The two entries of \<^verbatim>\<open>StyleSheet.create\<close> at the end of the file.\<close>

definition styles_container :: "string \<rightharpoonup> styleValue" where
  "styles_container =
     [''flexDirection'' \<mapsto> StrV ''row'',
      ''alignItems'' \<mapsto> StrV ''center'',
      ''justifyContent'' \<mapsto> StrV ''space-between'',
      ''paddingVertical'' \<mapsto> NumV 8,
      ''paddingHorizontal'' \<mapsto> NumV 16]"

definition styles_label :: "string \<rightharpoonup> styleValue" where
  "styles_label = [''fontSize'' \<mapsto> NumV 16]"

text \<open>
  Modelled from the spec: how the host framework resolves a style array is not part of
  the source. The label "uses a themed default text color unless overridden by a style
  prop": an absent entry contributes nothing and a later entry of an array overrides the
  keys of the earlier ones.
\<close>

fun flatten :: "styleProp \<Rightarrow> (string \<rightharpoonup> styleValue)" where
  "flatten StyleUndefined = Map.empty"
| "flatten (StyleObject obj) = obj"
| "flatten (StyleArray xs) = foldl (++) Map.empty (map flatten xs)"

subsection \<open>Props, theme and the group context\<close>

datatype status = Checked | Unchecked

text \<open>
  The \<^verbatim>\<open>Theme\<close> type is declared outside the file; \<^verbatim>\<open>render\<close> reads only
  \<^verbatim>\<open>theme.colors.text\<close>. Both records are extensible, so a theme may carry more.
\<close>

record Colors =
  colors_text :: string

record Theme =
  colors :: Colors

record 'w Props =
  value_prop :: string
  label :: string
  disabled :: "bool option"
  onPress :: "('w \<Rightarrow> 'w) option"
  uncheckedColor :: "string option"
  color :: "string option"
  status :: "status option"
  style :: styleProp
  labelStyle :: styleProp
  theme :: Theme

text \<open>
  Modelled from the spec: the declaration of \<^verbatim>\<open>RadioButtonContextType\<close> is in
  \<^verbatim>\<open>RadioButtonGroup\<close>, which is not part of the source. The channel holds "the
  currently selected identifier, a string or absence" and a change callback that press
  resolution invokes "if present".
\<close>

record 'w RadioButtonContextType =
  context_value :: "string option"
  onValueChange :: "(string \<Rightarrow> 'w \<Rightarrow> 'w) option"

text \<open>JavaScript truthiness of an optional boolean, as tested by \<^verbatim>\<open>disabled ? ... : ...\<close>.\<close>

fun truthy :: "bool option \<Rightarrow> bool" where
  "truthy None = False"
| "truthy (Some b) = b"

subsection \<open>Press resolution\<close>

text \<open>
  Modelled from the spec: \<^verbatim>\<open>handlePress\<close> is imported from \<^verbatim>\<open>./utils\<close>, which is
  not part of the source. "If itemOnPress is present, invoke it (no arguments). If
  groupOnValueChange is present, invoke it with itemValue. Both may fire; order is
  itemOnPress before groupOnValueChange." It returns nothing and has no error condition.
\<close>

definition handlePress ::
  "('w \<Rightarrow> 'w) option \<Rightarrow> (string \<Rightarrow> 'w \<Rightarrow> 'w) option \<Rightarrow> string \<Rightarrow> 'w \<Rightarrow> 'w" where
  "handlePress onPress_arg onValueChange_arg value_arg w =
     (let w1 = (case onPress_arg of None \<Rightarrow> w | Some f \<Rightarrow> f w)
      in case onValueChange_arg of None \<Rightarrow> w1 | Some g \<Rightarrow> g value_arg w1)"

subsection \<open>The element tree\<close>

datatype pointerEvents = PE_auto | PE_none | PE_box_none | PE_box_only

record RadioButtonProps =
  rb_value :: string
  rb_disabled :: "bool option"
  rb_status :: "status option"
  rb_color :: "string option"
  rb_uncheckedColor :: "string option"

datatype 'w element =
    TouchableRipple "('w \<Rightarrow> 'w) option" "'w element list"
  | View styleProp "pointerEvents option" "'w element list"
  | Text styleProp string
  | RadioButton RadioButtonProps

subsection \<open>The render method\<close>

text \<open>
  \<^verbatim>\<open>RadioButtonContext.Consumer\<close> calls its child function with the current context
  value, which is absent outside a group; here the context is the second argument. The
  optional chaining \<^verbatim>\<open>context?.onValueChange\<close> is the inner case distinction.
\<close>

definition render :: "'w Props \<Rightarrow> 'w RadioButtonContextType option \<Rightarrow> 'w element" where
  "render props context =
     TouchableRipple
       (if truthy (disabled props) then None
        else Some (handlePress
                     (onPress props)
                     (case context of None \<Rightarrow> None | Some c \<Rightarrow> onValueChange c)
                     (value_prop props)))
       [View (StyleArray [StyleObject styles_container, style props]) (Some PE_none)
          [Text (StyleArray
                   [StyleObject styles_label,
                    StyleObject [''color'' \<mapsto> StrV (colors_text (colors (theme props)))],
                    labelStyle props])
                (label props),
           RadioButton
             \<lparr>rb_value = value_prop props,
              rb_disabled = disabled props,
              rb_status = status props,
              rb_color = color props,
              rb_uncheckedColor = uncheckedColor props\<rparr>]]"

subsection \<open>Observations on an element tree\<close>

text \<open>The props of the radio indicators and the styles of the labels, in document order.\<close>

fun indicators :: "'w element \<Rightarrow> RadioButtonProps list" where
  "indicators (TouchableRipple h cs) = concat (map indicators cs)"
| "indicators (View s pe cs) = concat (map indicators cs)"
| "indicators (Text s l) = []"
| "indicators (RadioButton rb) = [rb]"

fun labelStyles :: "'w element \<Rightarrow> styleProp list" where
  "labelStyles (TouchableRipple h cs) = concat (map labelStyles cs)"
| "labelStyles (View s pe cs) = concat (map labelStyles cs)"
| "labelStyles (Text s l) = [s]"
| "labelStyles (RadioButton rb) = []"

text \<open>The press handler attached to the row, if any.\<close>

fun rowHandler :: "'w element \<Rightarrow> ('w \<Rightarrow> 'w) option" where
  "rowHandler (TouchableRipple h cs) = h"
| "rowHandler (View s pe cs) = None"
| "rowHandler (Text s l) = None"
| "rowHandler (RadioButton rb) = None"

text \<open>
  Modelled from the spec: \<^verbatim>\<open>TouchableRipple\<close> and \<^verbatim>\<open>RadioButton\<close> are components of
  the repository that are not part of the source. Pressing a row runs the handler
  attached to it and does nothing when none is attached ("the press handler is never
  attached, so neither callback fires").
\<close>

definition press :: "'w element \<Rightarrow> 'w \<Rightarrow> 'w" where
  "press e w = (case rowHandler e of None \<Rightarrow> w | Some h \<Rightarrow> h w)"

text \<open>
  Modelled from the spec: the indicator's "checked/unchecked state is: explicit status
  prop if provided; otherwise, true iff the channel is present and
  channel.value === item.value; otherwise (no channel, no explicit status) unchecked."
\<close>

definition isChecked :: "RadioButtonProps \<Rightarrow> 'w RadioButtonContextType option \<Rightarrow> bool" where
  "isChecked rb context =
     (case rb_status rb of
        Some s \<Rightarrow> s = Checked
      | None \<Rightarrow>
          (case context of
             None \<Rightarrow> False
           | Some c \<Rightarrow> context_value c = Some (rb_value rb)))"

subsection \<open>Press targeting\<close>

fun childrenOf :: "'w element \<Rightarrow> 'w element list" where
  "childrenOf (TouchableRipple h cs) = cs"
| "childrenOf (View s pe cs) = cs"
| "childrenOf (Text s l) = []"
| "childrenOf (RadioButton rb) = []"

text \<open>The \<^verbatim>\<open>pointerEvents\<close> prop of an element; the framework's default is \<^verbatim>\<open>auto\<close>.\<close>

fun pointerEventsOf :: "'w element \<Rightarrow> pointerEvents" where
  "pointerEventsOf (View s (Some pe) cs) = pe"
| "pointerEventsOf (View s None cs) = PE_auto"
| "pointerEventsOf (TouchableRipple h cs) = PE_auto"
| "pointerEventsOf (Text s l) = PE_auto"
| "pointerEventsOf (RadioButton rb) = PE_auto"

text \<open>
  Modelled from the spec: which element a press reaches is decided by the host framework,
  which is not part of the source. "Child content does not independently capture presses
  -- presses pass through to the row-level handler." A touch point is given by the path
  of child positions from the root to the innermost element drawn under it;
  \<open>hitChain\<close> lists, from the outside in, the elements on that path that may receive
  the touch: an element with \<^verbatim>\<open>pointerEvents\<close> \<^verbatim>\<open>none\<close> hides itself and its subtree,
  \<^verbatim>\<open>box-none\<close> hides only itself and \<^verbatim>\<open>box-only\<close> only its subtree.
\<close>

fun hitChain :: "'w element \<Rightarrow> nat list \<Rightarrow> 'w element list" where
  "hitChain e [] =
     (case pointerEventsOf e of
        PE_none \<Rightarrow> []
      | PE_box_none \<Rightarrow> []
      | PE_box_only \<Rightarrow> [e]
      | PE_auto \<Rightarrow> [e])"
| "hitChain e (i # path) =
     (case pointerEventsOf e of
        PE_none \<Rightarrow> []
      | PE_box_only \<Rightarrow> [e]
      | PE_box_none \<Rightarrow>
          (if i < length (childrenOf e) then hitChain (childrenOf e ! i) path else [])
      | PE_auto \<Rightarrow>
          e # (if i < length (childrenOf e) then hitChain (childrenOf e ! i) path else []))"

text \<open>
  Modelled from the spec: a \<^verbatim>\<open>TouchableRipple\<close> responds to presses, and so does a
  \<^verbatim>\<open>RadioButton\<close>, which is a pressable control when it is used on its own; views
  and texts do not. The innermost such element that may receive the touch responds.
\<close>

fun capturesPress :: "'w element \<Rightarrow> bool" where
  "capturesPress (TouchableRipple h cs) = True"
| "capturesPress (View s pe cs) = False"
| "capturesPress (Text s l) = False"
| "capturesPress (RadioButton rb) = True"

definition responder :: "'w element \<Rightarrow> nat list \<Rightarrow> 'w element option" where
  "responder e path =
     (case filter capturesPress (rev (hitChain e path)) of
        [] \<Rightarrow> None
      | t # ts \<Rightarrow> Some t)"

text \<open>The element drawn at the end of a path of child positions, if the path exists.\<close>

fun elementAt :: "'w element \<Rightarrow> nat list \<Rightarrow> 'w element option" where
  "elementAt e [] = Some e"
| "elementAt e (i # path) =
     (if i < length (childrenOf e) then elementAt (childrenOf e ! i) path else None)"

text \<open>
  What a press at a touch point leads to. When a row responds, its attached handler runs,
  and the outcome is the world it leaves; when an indicator responds, the press is the
  indicator's own, and nobody may respond at all.
\<close>

datatype 'w pressOutcome =
    NotAnswered
  | AnsweredByRow 'w
  | AnsweredByIndicator RadioButtonProps

fun answer :: "'w element \<Rightarrow> 'w \<Rightarrow> 'w pressOutcome" where
  "answer (TouchableRipple h cs) w = AnsweredByRow (press (TouchableRipple h cs) w)"
| "answer (View s pe cs) w = NotAnswered"
| "answer (Text s l) w = NotAnswered"
| "answer (RadioButton rb) w = AnsweredByIndicator rb"

definition pressAt :: "'w element \<Rightarrow> nat list \<Rightarrow> 'w \<Rightarrow> 'w pressOutcome" where
  "pressAt e path w =
     (case responder e path of
        None \<Rightarrow> NotAnswered
      | Some t \<Rightarrow> answer t w)"

subsection \<open>Recording callbacks and example inputs\<close>

text \<open>
  To observe which callbacks a press invokes, with which argument and in which order, the
  outside world is instantiated by a log of calls and the callbacks by functions that
  append to it.
\<close>

datatype call = CallOnPress | CallOnValueChange string

definition spyOnPress :: "call list \<Rightarrow> call list" where
  "spyOnPress log = log @ [CallOnPress]"

definition spyOnValueChange :: "string \<Rightarrow> call list \<Rightarrow> call list" where
  "spyOnValueChange v log = log @ [CallOnValueChange v]"

definition exampleProps ::
  "bool option \<Rightarrow> ('w \<Rightarrow> 'w) option \<Rightarrow> status option \<Rightarrow> 'w Props" where
  "exampleProps d f st =
     \<lparr>value_prop = ''second'', label = ''Second item'', disabled = d, onPress = f,
      uncheckedColor = None, color = Some ''#ff0000'', status = st,
      style = StyleUndefined, labelStyle = StyleUndefined,
      theme = \<lparr>colors = \<lparr>colors_text = ''#000000''\<rparr>\<rparr>\<rparr>"

definition exampleContext :: "call list RadioButtonContextType" where
  "exampleContext = \<lparr>context_value = Some ''first'', onValueChange = Some spyOnValueChange\<rparr>"

definition silentContext :: "call list RadioButtonContextType" where
  "silentContext = \<lparr>context_value = Some ''first'', onValueChange = None\<rparr>"

section \<open>Properties\<close>

subsection \<open>What render puts into the tree\<close>

lemma indicators_render:
  "indicators (render p c) =
     [\<lparr>rb_value = value_prop p, rb_disabled = disabled p, rb_status = status p,
       rb_color = color p, rb_uncheckedColor = uncheckedColor p\<rparr>]"
  by (simp add: render_def)

lemma labelStyles_render:
  "labelStyles (render p c) =
     [StyleArray [StyleObject styles_label,
                  StyleObject [''color'' \<mapsto> StrV (colors_text (colors (theme p)))],
                  labelStyle p]]"
  by (simp add: render_def)

lemma rowHandler_render:
  "rowHandler (render p c) =
     (if truthy (disabled p) then None
      else Some (handlePress (onPress p)
                   (case c of None \<Rightarrow> None | Some ch \<Rightarrow> onValueChange ch)
                   (value_prop p)))"
  by (simp add: render_def)

lemma press_render:
  "press (render p c) w =
     (if truthy (disabled p) then w
      else handlePress (onPress p)
             (case c of None \<Rightarrow> None | Some ch \<Rightarrow> onValueChange ch)
             (value_prop p) w)"
  by (simp add: press_def rowHandler_render)

lemma hitChain_render: "hitChain (render p c) path = [render p c]"
proof (cases path)
  case Nil
  then show ?thesis by (simp add: render_def)
next
  case (Cons i rest)
  show ?thesis
  proof (cases i)
    case 0
    with Cons show ?thesis by (cases rest) (simp_all add: render_def)
  next
    case (Suc k)
    with Cons show ?thesis by (simp add: render_def)
  qed
qed

subsection \<open>The indicator\<close>

text \<open>
  Claim C1. The rendered item has exactly one indicator, and its checked state is the
  explicit \<^verbatim>\<open>status\<close> prop when that is given; otherwise it is checked exactly when a
  channel is present and the channel's value equals the item's value; with no channel
  and no status it is unchecked whatever the item's value.
\<close>

theorem indicator_checked_state:
  "map (\<lambda>rb. isChecked rb c) (indicators (render p c)) =
     [case status p of
        Some s \<Rightarrow> s = Checked
      | None \<Rightarrow> (case c of None \<Rightarrow> False | Some ch \<Rightarrow> context_value ch = Some (value_prop p))]"
  by (simp add: indicators_render isChecked_def split: option.splits)

text \<open>
  The scenario of two items in one group: with the channel on \<open>''first''\<close>, item A is
  checked and item B is not; a press on B hands \<open>''second''\<close> to the owner of the
  channel, and rendering again with the new channel value swaps the two indicators. The
  outside world is the owner's selected value here.
\<close>

lemma group_scenario:
  fixes a b :: "string Props" and ch :: "string \<Rightarrow> string RadioButtonContextType"
  defines "a \<equiv> (exampleProps None None None)\<lparr>value_prop := ''first''\<rparr>"
    and "b \<equiv> exampleProps None None None"
    and "ch \<equiv> \<lambda>sel. \<lparr>context_value = Some sel, onValueChange = Some (\<lambda>v w. v)\<rparr>"
  shows "map (\<lambda>rb. isChecked rb (Some (ch ''first''))) (indicators (render a (Some (ch ''first''))))
           = [True]"
    and "map (\<lambda>rb. isChecked rb (Some (ch ''first''))) (indicators (render b (Some (ch ''first''))))
           = [False]"
    and "press (render b (Some (ch ''first''))) ''first'' = ''second''"
    and "map (\<lambda>rb. isChecked rb (Some (ch ''second''))) (indicators (render a (Some (ch ''second''))))
           = [False]"
    and "map (\<lambda>rb. isChecked rb (Some (ch ''second''))) (indicators (render b (Some (ch ''second''))))
           = [True]"
  by (simp_all add: a_def b_def ch_def indicators_render isChecked_def press_render
        handlePress_def exampleProps_def)

subsection \<open>Pressing the row\<close>

text \<open>
  Claim C2. On an item that is not disabled, a press runs the item's \<^verbatim>\<open>onPress\<close>
  first, if it is present, and then the channel's \<^verbatim>\<open>onValueChange\<close>, if it is
  present, on the item's own value: the outcome of the press is the outcome of
  \<^verbatim>\<open>onValueChange\<close> at the item's value, started where \<^verbatim>\<open>onPress\<close> left off.
\<close>

theorem press_dispatch:
  assumes "\<not> truthy (disabled p)"
  shows "press (render p c) w =
           (let w1 = (case onPress p of None \<Rightarrow> w | Some f \<Rightarrow> f w)
            in case (case c of None \<Rightarrow> None | Some ch \<Rightarrow> onValueChange ch) of
                 None \<Rightarrow> w1
               | Some g \<Rightarrow> g (value_prop p) w1)"
  using assms by (simp add: press_render handlePress_def)

text \<open>
  With recording callbacks, an item of value \<open>''second''\<close> in a group whose current
  value is \<open>''first''\<close> logs the call of \<^verbatim>\<open>onPress\<close> and then the call of
  \<^verbatim>\<open>onValueChange\<close> with \<open>''second''\<close>.
\<close>

theorem press_dispatch_witness:
  "\<not> truthy (disabled (exampleProps None (Some spyOnPress) None))
   \<and> press (render (exampleProps None (Some spyOnPress) None) (Some exampleContext)) []
       = [CallOnPress, CallOnValueChange ''second'']"
proof -
  have h: "\<not> truthy (disabled (exampleProps None (Some spyOnPress) None :: call list Props))"
    by (simp add: exampleProps_def)
  from press_dispatch [OF h, of "Some exampleContext" "[]"] h show ?thesis
    by (simp add: exampleProps_def exampleContext_def spyOnPress_def spyOnValueChange_def)
qed

text \<open>
  Claim C3. When \<^verbatim>\<open>disabled\<close> is true, whatever the item's \<^verbatim>\<open>onPress\<close> and
  whatever the channel, no press handler is attached to the row, and pressing the row
  leaves everything as it was: neither callback runs.
\<close>

theorem disabled_suppresses_press:
  assumes "truthy (disabled p)"
  shows "rowHandler (render p c) = None \<and> press (render p c) w = w"
  using assms by (simp add: rowHandler_render press_render)

theorem disabled_suppresses_press_witness:
  "truthy (disabled (exampleProps (Some True) (Some spyOnPress) None))
   \<and> rowHandler (render (exampleProps (Some True) (Some spyOnPress) None) (Some exampleContext))
       = None
   \<and> press (render (exampleProps (Some True) (Some spyOnPress) None) (Some exampleContext)) []
       = []"
proof -
  have h: "truthy (disabled (exampleProps (Some True) (Some spyOnPress) None :: call list Props))"
    by (simp add: exampleProps_def)
  from disabled_suppresses_press [OF h, of "Some exampleContext" "[]"] h show ?thesis
    by simp
qed

text \<open>
  Claim C4. Press dispatch with both callbacks absent changes nothing, and so does a
  press on an enabled item whose \<^verbatim>\<open>onPress\<close> is absent when there is no channel or
  the channel has no \<^verbatim>\<open>onValueChange\<close>: the result is the world as it was, and no
  error value exists for it to be.
\<close>

theorem press_without_callbacks_noop:
  assumes "\<not> truthy (disabled p)"
    and "onPress p = None"
    and "c = None \<or> (\<exists>ch. c = Some ch \<and> onValueChange ch = None)"
  shows "handlePress None None v w = w \<and> press (render p c) w = w"
  using assms by (auto simp add: press_render handlePress_def)

theorem press_without_callbacks_noop_witness:
  "press (render (exampleProps (Some False) None None) None) [CallOnPress] = [CallOnPress]
   \<and> press (render (exampleProps None None None) (Some silentContext)) [CallOnPress]
       = [CallOnPress]"
proof -
  have e1: "\<not> truthy (disabled (exampleProps (Some False) None None :: call list Props))"
    and e2: "\<not> truthy (disabled (exampleProps None None None :: call list Props))"
    by (simp_all add: exampleProps_def)
  have p1: "onPress (exampleProps (Some False) None None :: call list Props) = None"
    and p2: "onPress (exampleProps None None None :: call list Props) = None"
    by (simp_all add: exampleProps_def)
  have c1: "(None :: call list RadioButtonContextType option) = None
            \<or> (\<exists>ch. None = Some ch \<and> onValueChange ch = None)"
    by simp
  have c2: "Some silentContext = None
            \<or> (\<exists>ch. Some silentContext = Some ch \<and> onValueChange ch = None)"
    by (simp add: silentContext_def)
  from press_without_callbacks_noop [OF e1 p1 c1, of "[]" "[CallOnPress]"]
       press_without_callbacks_noop [OF e2 p2 c2, of "[]" "[CallOnPress]"]
  show ?thesis by simp
qed

subsection \<open>One press target\<close>

lemma responder_render: "responder (render p c) path = Some (render p c)"
  by (simp add: hitChain_render responder_def) (simp add: render_def)

lemma pressAt_render: "pressAt (render p c) path w = AnsweredByRow (press (render p c) w)"
proof -
  have "answer (render p c) w = AnsweredByRow (press (render p c) w)"
    by (simp add: render_def)
  then show ?thesis
    by (simp add: pressAt_def responder_render)
qed

text \<open>
  Claim C6. The row's content is one view with \<^verbatim>\<open>pointerEvents\<close> \<^verbatim>\<open>none\<close> that holds
  the label and the indicator, in this order. Wherever in the row a touch lands, on the
  label and on the indicator too, the only element that may receive it is the row, the
  row responds, and the press is answered by the row's handler: press resolution with the
  item's \<^verbatim>\<open>onPress\<close>, the channel's \<^verbatim>\<open>onValueChange\<close> and the item's value when the
  item is not disabled, and nothing when it is. The label and the indicator never capture
  a press of their own.
\<close>

theorem row_is_single_press_target:
  "(\<exists>s ls rb.
      childrenOf (render p c) = [View s (Some PE_none) [Text ls (label p), RadioButton rb]]
      \<and> elementAt (render p c) [0, 0] = Some (Text ls (label p))
      \<and> elementAt (render p c) [0, 1] = Some (RadioButton rb)
      \<and> indicators (render p c) = [rb])
   \<and> hitChain (render p c) path = [render p c]
   \<and> responder (render p c) path = Some (render p c)
   \<and> pressAt (render p c) path w =
       AnsweredByRow
         (if truthy (disabled p) then w
          else handlePress (onPress p)
                 (case c of None \<Rightarrow> None | Some ch \<Rightarrow> onValueChange ch)
                 (value_prop p) w)"
proof -
  have content: "\<exists>s ls rb.
      childrenOf (render p c) = [View s (Some PE_none) [Text ls (label p), RadioButton rb]]
      \<and> elementAt (render p c) [0, 0] = Some (Text ls (label p))
      \<and> elementAt (render p c) [0, 1] = Some (RadioButton rb)
      \<and> indicators (render p c) = [rb]"
    by (simp add: render_def)
  have answered: "pressAt (render p c) path w =
       AnsweredByRow
         (if truthy (disabled p) then w
          else handlePress (onPress p)
                 (case c of None \<Rightarrow> None | Some ch \<Rightarrow> onValueChange ch)
                 (value_prop p) w)"
    by (simp add: pressAt_render press_render)
  from content answered show ?thesis
    by (simp add: hitChain_render responder_render)
qed

text \<open>
  This rests on \<^verbatim>\<open>pointerEvents="none"\<close>: in the same tree without it, a touch on the
  indicator would be answered by the indicator and the row's handler would not run.
\<close>

lemma without_pointerEvents_none:
  "responder (TouchableRipple h [View s None [Text t l, RadioButton rb]]) [0, 1]
     = Some (RadioButton rb)"
  "pressAt (TouchableRipple h [View s None [Text t l, RadioButton rb]]) [0, 1] w
     = AnsweredByIndicator rb"
  by (simp_all add: responder_def pressAt_def)

text \<open>
  A touch on the indicator of an enabled item in a group runs the row's press resolution:
  with recording callbacks the log shows the item's \<^verbatim>\<open>onPress\<close> and then the channel's
  \<^verbatim>\<open>onValueChange\<close> with the item's value.
\<close>

lemma touch_on_indicator_example:
  "pressAt (render (exampleProps None (Some spyOnPress) None) (Some exampleContext)) [0, 1] []
     = AnsweredByRow [CallOnPress, CallOnValueChange ''second'']"
  by (simp add: pressAt_render press_render handlePress_def exampleProps_def
        exampleContext_def spyOnPress_def spyOnValueChange_def)

subsection \<open>Styles and colours\<close>

text \<open>
  Claim C7. Changing \<^verbatim>\<open>style\<close> and \<^verbatim>\<open>labelStyle\<close> changes neither the handler
  attached to the row, nor what a press does, nor the props handed to the indicator,
  nor the indicator's checked state.
\<close>

theorem style_props_no_behavioural_effect:
  "rowHandler (render (p\<lparr>style := s, labelStyle := ls\<rparr>) c) = rowHandler (render p c)
   \<and> press (render (p\<lparr>style := s, labelStyle := ls\<rparr>) c) w = press (render p c) w
   \<and> indicators (render (p\<lparr>style := s, labelStyle := ls\<rparr>) c) = indicators (render p c)
   \<and> map (\<lambda>rb. isChecked rb c) (indicators (render (p\<lparr>style := s, labelStyle := ls\<rparr>) c))
       = map (\<lambda>rb. isChecked rb c) (indicators (render p c))"
  by (simp add: rowHandler_render press_render indicators_render)

text \<open>
  Claim C8. The label's colour is the colour that \<^verbatim>\<open>labelStyle\<close> gives when it gives
  one, and the theme's text colour otherwise; the indicator receives the \<^verbatim>\<open>color\<close>
  and \<^verbatim>\<open>uncheckedColor\<close> props as they were supplied, absent when they were not.
\<close>

theorem label_and_indicator_colors:
  "map (\<lambda>s. flatten s ''color'') (labelStyles (render p c)) =
     [case flatten (labelStyle p) ''color'' of
        Some v \<Rightarrow> Some v
      | None \<Rightarrow> Some (StrV (colors_text (colors (theme p))))]
   \<and> map (\<lambda>rb. (rb_color rb, rb_uncheckedColor rb)) (indicators (render p c)) =
     [(color p, uncheckedColor p)]"
  by (simp add: labelStyles_render indicators_render map_add_def split: option.splits)

subsection \<open>What the render method ties together\<close>

text \<open>
  Claim C9. Only \<^verbatim>\<open>disabled\<close> decides whether the row has a press handler: the handler
  is missing exactly when \<^verbatim>\<open>disabled\<close> is true. An enabled item with no
  \<^verbatim>\<open>onPress\<close> and no channel still has its handler, which dispatches to no callback.
\<close>

theorem handler_attached_iff_enabled:
  "(rowHandler (render p c) = None) = truthy (disabled p)
   \<and> (\<not> truthy (disabled p) \<and> onPress p = None \<longrightarrow>
        rowHandler (render p None) = Some (handlePress None None (value_prop p))
        \<and> press (render p None) w = w)"
  by (simp add: rowHandler_render press_render handlePress_def)

theorem handler_attached_iff_enabled_witness:
  "rowHandler (render (exampleProps None None None)
                 (None :: call list RadioButtonContextType option)) \<noteq> None
   \<and> rowHandler (render (exampleProps (Some False) None None)
                   (None :: call list RadioButtonContextType option)) \<noteq> None
   \<and> press (render (exampleProps (Some False) None None) None) [CallOnPress] = [CallOnPress]"
  using handler_attached_iff_enabled
          [of "exampleProps None None None :: call list Props" None "[CallOnPress]"]
        handler_attached_iff_enabled
          [of "exampleProps (Some False) None None :: call list Props" None "[CallOnPress]"]
  by (simp add: exampleProps_def)

text \<open>
  Claim C10. In one render, the value given to press dispatch is the value given to the
  indicator: the handler of an enabled row is press dispatch at the indicator's value,
  so a press hands \<^verbatim>\<open>onValueChange\<close> the very value the indicator compares with the
  channel's.
\<close>

theorem dispatch_value_is_indicator_value:
  assumes "\<not> truthy (disabled p)"
    and "onValueChange ch = Some g"
  shows "\<exists>rb. indicators (render p (Some ch)) = [rb]
              \<and> rb_value rb = value_prop p
              \<and> rowHandler (render p (Some ch))
                  = Some (handlePress (onPress p) (Some g) (rb_value rb))
              \<and> press (render p (Some ch)) w
                  = g (rb_value rb) (case onPress p of None \<Rightarrow> w | Some f \<Rightarrow> f w)"
  using assms by (simp add: indicators_render rowHandler_render press_render handlePress_def)

theorem dispatch_value_is_indicator_value_witness:
  "\<exists>rb. indicators (render (exampleProps None None None) (Some exampleContext)) = [rb]
        \<and> press (render (exampleProps None None None) (Some exampleContext)) []
            = [CallOnValueChange (rb_value rb)]"
proof -
  have h: "\<not> truthy (disabled (exampleProps None None None :: call list Props))"
    by (simp add: exampleProps_def)
  have g: "onValueChange exampleContext = Some spyOnValueChange"
    by (simp add: exampleContext_def)
  from dispatch_value_is_indicator_value [OF h g, of "[]"] show ?thesis
    by (auto simp add: exampleProps_def spyOnValueChange_def)
qed

end
